theory Spec2Isabelle
  imports Complex_Main "HOL-Library.Sublist"
begin

section \<open>Values shared by the two jobs\<close>

text \<open>
  The exceptions the two scripts can raise, named as Python names them. An exception that
  reaches the top of a script ends the process; the connection is then closed without a
  commit, so nothing the run wrote is kept.
\<close>

datatype error =
    TypeError
  | IndexError
  | KeyError
  | ValueError
  | OverflowError
  | ProgrammingError
  | JSONDecodeError
  | ConnectionError

text \<open>
  What \<open>json.load\<close> and \<open>response.json()\<close> return. Python floats are modelled as
  reals: rounding error, NaN and the infinities are outside the model. Strings are byte
  lists here and code point sequences in Python.
\<close>

datatype json =
    JNull
  | JBool bool
  | JInt int
  | JFloat real
  | JStr string
  | JArr "json list"
  | JObj "(string \<times> json) list"

text \<open>Python's truth value of an object, as \<open>not x\<close> and \<open>if x\<close> use it.\<close>

fun truthy :: "json \<Rightarrow> bool" where
  "truthy JNull = False"
| "truthy (JBool b) = b"
| "truthy (JInt i) = (i \<noteq> 0)"
| "truthy (JFloat r) = (r \<noteq> 0)"
| "truthy (JStr s) = (s \<noteq> [])"
| "truthy (JArr xs) = (xs \<noteq> [])"
| "truthy (JObj kvs) = (kvs \<noteq> [])"

text \<open>
  \<open>x[i]\<close> with a literal index \<open>i \<ge> 0\<close>. A dictionary parsed from JSON has string keys
  only, so an integer key is never found.
\<close>

fun subscript_int :: "json \<Rightarrow> nat \<Rightarrow> error + json" where
  "subscript_int (JArr xs) i = (if i < length xs then Inr (xs ! i) else Inl IndexError)"
| "subscript_int (JStr s) i = (if i < length s then Inr (JStr [s ! i]) else Inl IndexError)"
| "subscript_int (JObj kvs) i = Inl KeyError"
| "subscript_int JNull i = Inl TypeError"
| "subscript_int (JBool b) i = Inl TypeError"
| "subscript_int (JInt n) i = Inl TypeError"
| "subscript_int (JFloat r) i = Inl TypeError"

text \<open>\<open>x["k"]\<close>. In a parsed object with a repeated key the last value wins.\<close>

fun subscript_str :: "json \<Rightarrow> string \<Rightarrow> error + json" where
  "subscript_str (JObj kvs) k =
     (case map_of (rev kvs) k of None \<Rightarrow> Inl KeyError | Some v \<Rightarrow> Inr v)"
| "subscript_str (JArr xs) k = Inl TypeError"
| "subscript_str (JStr s) k = Inl TypeError"
| "subscript_str JNull k = Inl TypeError"
| "subscript_str (JBool b) k = Inl TypeError"
| "subscript_str (JInt n) k = Inl TypeError"
| "subscript_str (JFloat r) k = Inl TypeError"

text \<open>
  \<open>"k" in x\<close>: a key of a dictionary, an element of a list, a substring of a string;
  the other values are not containers.
\<close>

fun contains_str :: "json \<Rightarrow> string \<Rightarrow> error + bool" where
  "contains_str (JObj kvs) k = Inr (k \<in> set (map fst kvs))"
| "contains_str (JArr xs) k = Inr (JStr k \<in> set xs)"
| "contains_str (JStr s) k = Inr (sublist k s)"
| "contains_str JNull k = Inl TypeError"
| "contains_str (JBool b) k = Inl TypeError"
| "contains_str (JInt n) k = Inl TypeError"
| "contains_str (JFloat r) k = Inl TypeError"

text \<open>
  \<open>for a in x\<close>: the elements of a list, the characters of a string, the keys of a
  dictionary in the order of their first occurrence.
\<close>

fun iterate :: "json \<Rightarrow> error + json list" where
  "iterate (JArr xs) = Inr xs"
| "iterate (JStr s) = Inr (map (\<lambda>c. JStr [c]) s)"
| "iterate (JObj kvs) = Inr (map JStr (rev (remdups (rev (map fst kvs)))))"
| "iterate JNull = Inl TypeError"
| "iterate (JBool b) = Inl TypeError"
| "iterate (JInt n) = Inl TypeError"
| "iterate (JFloat r) = Inl TypeError"

text \<open>The first exception ends the sequence of statements.\<close>

definition and_then :: "error + 'a \<Rightarrow> ('a \<Rightarrow> error + 'b) \<Rightarrow> error + 'b" where
  "and_then r f = (case r of Inl e \<Rightarrow> Inl e | Inr x \<Rightarrow> f x)"

text \<open>
  A value held in a column or bound to a \<open>?\<close> of a statement. The store keeps the value
  that was bound: the conversions of SQLite's column affinity (a number written to a
  TEXT column becomes its text) are not modelled.
\<close>

datatype sqlval = SNull | SInt int | SReal real | SText string

text \<open>
  \<open>a = b\<close> in a WHERE clause and in a UNIQUE constraint: NULL equals nothing, numbers
  compare by value.
\<close>

fun sql_eq :: "sqlval \<Rightarrow> sqlval \<Rightarrow> bool" where
  "sql_eq (SInt i) (SInt j) = (i = j)"
| "sql_eq (SInt i) (SReal r) = (of_int i = r)"
| "sql_eq (SReal r) (SInt i) = (r = of_int i)"
| "sql_eq (SReal r) (SReal s) = (r = s)"
| "sql_eq (SText s) (SText t) = (s = t)"
| "sql_eq _ _ = False"

text \<open>The lines the two scripts print, one constructor per \<open>print\<close> call of the source.\<close>

datatype msg =
    Msg_credentials_no_se_encuentra
  | Msg_token_tardo_demasiado
  | Msg_no_fue_posible_conectarse
  | Msg_endpoint_tardo_demasiado
  | Msg_no_se_pudo_obtener_informacion
  | Msg_formato_de_ruta_ingest
  | Msg_formato_de_ruta_compute
  | Msg_estas_usando_la_database string
  | Msg_error_formato_json
  | Msg_tablas_llenadas_con_exito
  | Msg_database_vacia
  | Msg_columna_agregada_exitosamente

text \<open>
  What a run does to the world outside it, in the order it does it: reading the
  credential file, the two requests, printing, opening the store named on the command
  line, creating the tables, committing, closing.
\<close>

datatype event =
    Open_credentials
  | Post_token
  | Get_states
  | Print msg
  | Connect string
  | Create_tables
  | Commit
  | Close

text \<open>
  How a script ends: \<open>main\<close> returns, \<open>exit()\<close> is called, or an exception reaches the
  top.
\<close>

datatype outcome = Returned | Exited | Raised error

section \<open>The distance job: Airplanes_compute_flight_snapshots.py\<close>

text \<open>
  Modelled from the spec: the table \<open>Trayectorias_validas\<close> is read and updated by the
  source but created elsewhere. Its columns are the ones the two statements of
  \<open>calcular_distancias_trayectorias\<close> name.
\<close>

record trayectoria =
  Avion_fisico_id :: sqlval
  lat_inicio :: sqlval
  lon_inicio :: sqlval
  lat_fin :: sqlval
  lon_fin :: sqlval
  distancia_inicio_a_fin_km :: sqlval

text \<open>
  The argument conversion of \<open>math.radians\<close>: a number is accepted, None and a string
  raise TypeError.
\<close>

fun as_float :: "sqlval \<Rightarrow> error + real" where
  "as_float (SInt i) = Inr (of_int i)"
| "as_float (SReal r) = Inr r"
| "as_float SNull = Inl TypeError"
| "as_float (SText s) = Inl TypeError"

definition radians :: "real \<Rightarrow> real" where
  "radians x = x * (pi / 180)"

text \<open>\<open>math.acos\<close> raises ValueError ("math domain error") outside \<open>[-1, 1]\<close>.\<close>

definition acos :: "real \<Rightarrow> error + real" where
  "acos x = (if - 1 \<le> x \<and> x \<le> 1 then Inr (arccos x) else Inl ValueError)"

text \<open>
  \<open>round(x, n)\<close> on a float: to the nearest multiple of \<open>10^-n\<close>, a tie going to the even
  one.
\<close>

definition round_half_even :: "real \<Rightarrow> int" where
  "round_half_even x =
     (let f = \<lfloor>x\<rfloor>; d = x - of_int f
      in if d < 1 / 2 then f else if 1 / 2 < d then f + 1 else if even f then f else f + 1)"

definition round_py :: "real \<Rightarrow> nat \<Rightarrow> real" where
  "round_py x n = of_int (round_half_even (x * 10 ^ n)) / 10 ^ n"

text \<open>
  Line 73 of the source, on the four values already converted to radians. The argument
  goes to \<open>acos\<close> as computed.
\<close>

definition distancia_km :: "real \<Rightarrow> real \<Rightarrow> real \<Rightarrow> real \<Rightarrow> error + real" where
  "distancia_km lat_i lon_i lat_f lon_f =
     and_then (acos (sin lat_i * sin lat_f + cos lat_i * cos lat_f * cos (lon_i - lon_f)))
       (\<lambda>a. Inr (round_py (6371 * a) 2))"

text \<open>Lines 66 to 73: the conversions in the order of the source, then the distance.\<close>

definition distancia_de_fila :: "trayectoria \<Rightarrow> error + real" where
  "distancia_de_fila avion =
     and_then (as_float (lat_inicio avion)) (\<lambda>a1.
     and_then (as_float (lon_inicio avion)) (\<lambda>a2.
     and_then (as_float (lat_fin avion)) (\<lambda>a3.
     and_then (as_float (lon_fin avion)) (\<lambda>a4.
       distancia_km (radians a1) (radians a2) (radians a3) (radians a4)))))"

text \<open>The UPDATE of lines 76 to 78: every row whose key equals the parameter is set.\<close>

definition update_distancia :: "real \<Rightarrow> sqlval \<Rightarrow> trayectoria list \<Rightarrow> trayectoria list" where
  "update_distancia d k tabla =
     map (\<lambda>r. if sql_eq (Avion_fisico_id r) k
               then r\<lparr>distancia_inicio_a_fin_km := SReal d\<rparr> else r) tabla"

text \<open>The loop of lines 65 to 78 over the fetched rows, on the table being updated.\<close>

fun recorrer_trayectorias :: "trayectoria list \<Rightarrow> trayectoria list \<Rightarrow> error + trayectoria list" where
  "recorrer_trayectorias [] tabla = Inr tabla"
| "recorrer_trayectorias (avion # resto) tabla =
     and_then (distancia_de_fila avion) (\<lambda>d.
       recorrer_trayectorias resto (update_distancia d (Avion_fisico_id avion) tabla))"

text \<open>
  \<open>calcular_distancias_trayectorias\<close>: the committed table and what the run did, or the
  exception that ended the run before the commit.
\<close>

definition calcular_distancias_trayectorias :: "trayectoria list \<Rightarrow> error + trayectoria list \<times> event list" where
  "calcular_distancias_trayectorias tabla =
     (let lista_por_avion = tabla
      in if lista_por_avion = [] then Inr (tabla, [Print Msg_database_vacia])
         else and_then (recorrer_trayectorias lista_por_avion tabla)
                (\<lambda>t. Inr (t, [Commit, Print Msg_columna_agregada_exitosamente])))"

text \<open>
  \<open>main\<close> of the distance job, on the command line and the table held by the store the
  command line names. The store is taken to open and to hold the table.
\<close>

definition main_compute :: "string list \<Rightarrow> trayectoria list \<Rightarrow> event list \<times> outcome \<times> trayectoria list" where
  "main_compute argv tabla =
     (if length argv \<noteq> 2 then ([Print Msg_formato_de_ruta_compute], Exited, tabla)
      else
        let database_retrieval_path = argv ! 1;
            antes = [Print (Msg_estas_usando_la_database database_retrieval_path),
                     Connect database_retrieval_path]
        in case calcular_distancias_trayectorias tabla of
             Inl e \<Rightarrow> (antes, Raised e, tabla)
           | Inr (t, hecho) \<Rightarrow> (antes @ hecho @ [Close], Returned, t))"

text \<open>
  Modelled from the spec: \<open>Trayectorias_validas\<close> is keyed by the aircraft, so no two
  rows have equal keys and no key is NULL.
\<close>

fun claves_distintas :: "sqlval list \<Rightarrow> bool" where
  "claves_distintas [] = True"
| "claves_distintas (k # ks) = (sql_eq k k \<and> \<not> list_ex (sql_eq k) ks \<and> claves_distintas ks)"






section \<open>The ingestion job: Airplanes_ingest_flight_snapshots.py\<close>

subsection \<open>The store\<close>

text \<open>
  The two tables of \<open>crear_tabla_principal\<close>, each with the counter that AUTOINCREMENT
  keeps for it. A table that does not exist yet is the empty table, which is what
  \<open>CREATE TABLE IF NOT EXISTS\<close> makes of it.
\<close>

record avion_fisico_fila =
  af_id :: int
  icao :: sqlval
  call_sign :: sqlval
  pais_origen :: sqlval

record snapshot_fila =
  sn_id :: int
  sn_Avion_fisico_id :: int
  posicion_temporal :: sqlval
  tiempo_de_captura :: int
  longitud :: sqlval
  latitud :: sqlval
  altitud :: sqlval

record database =
  Avion_fisico :: "avion_fisico_fila list"
  Avion_fisico_seq :: int
  Snapshots :: "snapshot_fila list"
  Snapshots_seq :: int

text \<open>
  Binding a Python value to a \<open>?\<close>: None is NULL, a bool is an integer, an integer
  must fit 64 bits, a list or a dictionary is refused.
\<close>

fun bind_param :: "json \<Rightarrow> error + sqlval" where
  "bind_param JNull = Inr SNull"
| "bind_param (JBool b) = Inr (SInt (if b then 1 else 0))"
| "bind_param (JInt i) =
     (if - (2 ^ 63) \<le> i \<and> i < 2 ^ 63 then Inr (SInt i) else Inl OverflowError)"
| "bind_param (JFloat r) = Inr (SReal r)"
| "bind_param (JStr s) = Inr (SText s)"
| "bind_param (JArr xs) = Inl ProgrammingError"
| "bind_param (JObj kvs) = Inl ProgrammingError"

text \<open>
  The key AUTOINCREMENT gives a new row: one more than the largest key the table has or
  ever had.
\<close>

definition nuevo_id :: "int \<Rightarrow> int list \<Rightarrow> int" where
  "nuevo_id seq ids = fold max ids seq + 1"

text \<open>
  \<open>INSERT OR IGNORE INTO Avion_fisico (icao, call_sign, pais_origen)\<close>: the row is
  dropped when its \<open>icao\<close> would break the UNIQUE constraint, and added with a new key
  otherwise.
\<close>

definition insert_or_ignore_avion :: "sqlval \<Rightarrow> sqlval \<Rightarrow> sqlval \<Rightarrow> database \<Rightarrow> database" where
  "insert_or_ignore_avion i c p db =
     (if list_ex (\<lambda>r. sql_eq (icao r) i) (Avion_fisico db) then db
      else
        let n = nuevo_id (Avion_fisico_seq db) (map af_id (Avion_fisico db))
        in db\<lparr>Avion_fisico :=
                 Avion_fisico db @ [\<lparr>af_id = n, icao = i, call_sign = c, pais_origen = p\<rparr>],
               Avion_fisico_seq := n\<rparr>)"

text \<open>
  \<open>SELECT id FROM Avion_fisico WHERE icao = ?\<close> followed by \<open>fetchone()\<close>: the first
  matching row, or None.
\<close>

definition select_id :: "sqlval \<Rightarrow> database \<Rightarrow> int option" where
  "select_id i db = map_option af_id (find (\<lambda>r. sql_eq (icao r) i) (Avion_fisico db))"

text \<open>\<open>INSERT INTO Snapshots (...)\<close>: always one new row.\<close>

definition insert_snapshot :: "int \<Rightarrow> sqlval \<Rightarrow> int \<Rightarrow> sqlval \<Rightarrow> sqlval \<Rightarrow> sqlval \<Rightarrow> database \<Rightarrow> database" where
  "insert_snapshot a pt tc lo la al db =
     (let n = nuevo_id (Snapshots_seq db) (map sn_id (Snapshots db))
      in db\<lparr>Snapshots :=
               Snapshots db @ [\<lparr>sn_id = n, sn_Avion_fisico_id = a, posicion_temporal = pt,
                                tiempo_de_captura = tc, longitud = lo, latitud = la,
                                altitud = al\<rparr>],
             Snapshots_seq := n\<rparr>)"

subsection \<open>llenar_tabla_en_sqlite\<close>

text \<open>
  Lines 212 to 230, the body of the loop for a record that passed the test of line 209.
  \<open>fetchone()[0]\<close> raises TypeError when no row matched.
\<close>

definition guardar_avion :: "int \<Rightarrow> json \<Rightarrow> database \<Rightarrow> error + database" where
  "guardar_avion tiempo avion db =
     and_then (subscript_int avion 0) (\<lambda>j_icao.
     and_then (subscript_int avion 1) (\<lambda>j_call_sign.
     and_then (subscript_int avion 2) (\<lambda>j_pais_origen.
     and_then (subscript_int avion 3) (\<lambda>j_posicion_temporal.
     and_then (subscript_int avion 5) (\<lambda>j_longitud.
     and_then (subscript_int avion 6) (\<lambda>j_latitud.
     and_then (subscript_int avion 7) (\<lambda>j_altitud.
     and_then (bind_param j_icao) (\<lambda>v_icao.
     and_then (bind_param j_call_sign) (\<lambda>v_call_sign.
     and_then (bind_param j_pais_origen) (\<lambda>v_pais_origen.
       let db1 = insert_or_ignore_avion v_icao v_call_sign v_pais_origen db
       in case select_id v_icao db1 of
            None \<Rightarrow> Inl TypeError
          | Some id_del_avion \<Rightarrow>
              and_then (bind_param j_posicion_temporal) (\<lambda>v_posicion_temporal.
              and_then (bind_param j_longitud) (\<lambda>v_longitud.
              and_then (bind_param j_latitud) (\<lambda>v_latitud.
              and_then (bind_param j_altitud) (\<lambda>v_altitud.
                Inr (insert_snapshot id_del_avion v_posicion_temporal tiempo
                       v_longitud v_latitud v_altitud db1)))))))))))))))"

text \<open>The loop of lines 208 to 230: a record of another country is skipped.\<close>

fun recorrer_aviones :: "int \<Rightarrow> json list \<Rightarrow> database \<Rightarrow> error + database" where
  "recorrer_aviones tiempo [] db = Inr db"
| "recorrer_aviones tiempo (avion # resto) db =
     and_then (subscript_int avion 2) (\<lambda>pais.
       if pais \<noteq> JStr ''Mexico'' then recorrer_aviones tiempo resto db
       else and_then (guardar_avion tiempo avion db) (recorrer_aviones tiempo resto))"

text \<open>
  \<open>llenar_tabla_en_sqlite\<close>, with the value of \<open>int(time.time())\<close> as a parameter: the
  committed store and what the run did, or the exception that ended it before the
  commit.
\<close>

definition llenar_tabla_en_sqlite :: "json \<Rightarrow> int \<Rightarrow> database \<Rightarrow> error + database \<times> event list" where
  "llenar_tabla_en_sqlite diccionario tiempo db =
     and_then (subscript_str diccionario ''states'') (\<lambda>states.
       if \<not> truthy states then Inr (db, [Print Msg_error_formato_json])
       else
         and_then (iterate states) (\<lambda>aviones.
         and_then (recorrer_aviones tiempo aviones db) (\<lambda>db'.
           Inr (db', [Commit, Print Msg_tablas_llenadas_con_exito]))))"

subsection \<open>The credential file and the two requests\<close>

text \<open>
  What opening and parsing \<open>credentials.json\<close> gives, and what a request gives: a
  timeout, no connection, a body that is not JSON, or the parsed body.
\<close>

datatype file_read = File_not_found | File_not_json | File_json json

datatype http_reply = Timed_out | Unreachable | Body_not_json | Body json

text \<open>
  \<open>obtener_credenciales_de_json\<close>: only FileNotFoundError is caught, and answered with
  \<open>(None, None)\<close>.
\<close>

definition obtener_credenciales_de_json :: "file_read \<Rightarrow> event list \<times> (error + json \<times> json)" where
  "obtener_credenciales_de_json f =
     (case f of
        File_not_found \<Rightarrow>
          ([Open_credentials, Print Msg_credentials_no_se_encuentra], Inr (JNull, JNull))
      | File_not_json \<Rightarrow> ([Open_credentials], Inl JSONDecodeError)
      | File_json texto_json_en_python \<Rightarrow>
          ([Open_credentials],
           and_then (subscript_str texto_json_en_python ''clientId'') (\<lambda>i.
           and_then (subscript_str texto_json_en_python ''clientSecret'') (\<lambda>s.
             Inr (i, s)))))"

text \<open>
  \<open>obtener_token\<close>: a timeout and a failed connection are caught and answered with
  None; a body that is not JSON or has no \<open>access_token\<close> raises.
\<close>

definition obtener_token :: "(json \<Rightarrow> json \<Rightarrow> http_reply) \<Rightarrow> json \<Rightarrow> json \<Rightarrow> event list \<times> (error + json)" where
  "obtener_token post opensky_client_id opensky_client_secret =
     (case post opensky_client_id opensky_client_secret of
        Timed_out \<Rightarrow> ([Post_token, Print Msg_token_tardo_demasiado], Inr JNull)
      | Unreachable \<Rightarrow> ([Post_token, Print Msg_no_fue_posible_conectarse], Inr JNull)
      | Body_not_json \<Rightarrow> ([Post_token], Inl JSONDecodeError)
      | Body response \<Rightarrow> ([Post_token], subscript_str response ''access_token''))"

text \<open>\<open>llamar_al_endpoint\<close>: only a timeout is caught.\<close>

definition llamar_al_endpoint :: "(json \<Rightarrow> http_reply) \<Rightarrow> json \<Rightarrow> event list \<times> (error + json)" where
  "llamar_al_endpoint get token =
     (case get token of
        Timed_out \<Rightarrow> ([Get_states, Print Msg_endpoint_tardo_demasiado], Inr JNull)
      | Unreachable \<Rightarrow> ([Get_states], Inl ConnectionError)
      | Body_not_json \<Rightarrow> ([Get_states], Inl JSONDecodeError)
      | Body aviones_en_json \<Rightarrow> ([Get_states], Inr aviones_en_json))"

subsection \<open>main\<close>

text \<open>
  Everything a run of the ingestion job reads: the command line, the credential file,
  the answers of the two endpoints, the clock, and the store the command line names
  (taken to open).
\<close>

record entorno =
  sys_argv :: "string list"
  credentials_json :: file_read
  token_endpoint :: "json \<Rightarrow> json \<Rightarrow> http_reply"
  states_endpoint :: "json \<Rightarrow> http_reply"
  reloj :: int
  almacen :: database

text \<open>
  Lines 37 to 56 of \<open>main\<close>: the check of the command line and the work on the store,
  after the events \<open>antes\<close> of the three steps before them.
\<close>

definition main_desde_argv :: "entorno \<Rightarrow> event list \<Rightarrow> json \<Rightarrow> event list \<times> outcome \<times> database" where
  "main_desde_argv env antes todos_los_aviones =
     (if length (sys_argv env) \<noteq> 2
      then (antes @ [Print Msg_formato_de_ruta_ingest], Exited, almacen env)
      else
        let database_exploratoria_path = sys_argv env ! 1;
            abierto = antes @ [Print (Msg_estas_usando_la_database database_exploratoria_path),
                               Connect database_exploratoria_path, Create_tables]
        in case llenar_tabla_en_sqlite todos_los_aviones (reloj env) (almacen env) of
             Inl e \<Rightarrow> (abierto, Raised e, almacen env)
           | Inr (db, hecho) \<Rightarrow> (abierto @ hecho @ [Close], Returned, db))"

text \<open>Lines 31 to 35 of \<open>main\<close>, then the rest.\<close>

definition main_desde_endpoint :: "entorno \<Rightarrow> event list \<Rightarrow> json \<Rightarrow> event list \<times> outcome \<times> database" where
  "main_desde_endpoint env antes token =
     (case llamar_al_endpoint (states_endpoint env) token of
        (t, Inl e) \<Rightarrow> (antes @ t, Raised e, almacen env)
      | (t, Inr todos_los_aviones) \<Rightarrow>
          if \<not> truthy todos_los_aviones
          then (antes @ t @ [Print Msg_no_se_pudo_obtener_informacion], Exited, almacen env)
          else
            (case contains_str todos_los_aviones ''states'' of
               Inl e \<Rightarrow> (antes @ t, Raised e, almacen env)
             | Inr hay_states \<Rightarrow>
                 if \<not> hay_states
                 then (antes @ t @ [Print Msg_no_se_pudo_obtener_informacion], Exited,
                       almacen env)
                 else main_desde_argv env (antes @ t) todos_los_aviones))"

text \<open>\<open>main\<close> of the ingestion job: lines 21 to 29, then the rest.\<close>

definition main_ingest :: "entorno \<Rightarrow> event list \<times> outcome \<times> database" where
  "main_ingest env =
     (case obtener_credenciales_de_json (credentials_json env) of
        (t1, Inl e) \<Rightarrow> (t1, Raised e, almacen env)
      | (t1, Inr (opensky_client_id, opensky_client_secret)) \<Rightarrow>
          if \<not> truthy opensky_client_id \<or> \<not> truthy opensky_client_secret
          then (t1, Exited, almacen env)
          else
            (case obtener_token (token_endpoint env) opensky_client_id opensky_client_secret of
               (t2, Inl e) \<Rightarrow> (t1 @ t2, Raised e, almacen env)
             | (t2, Inr token) \<Rightarrow>
                 if \<not> truthy token then (t1 @ t2, Exited, almacen env)
                 else main_desde_endpoint env (t1 @ t2) token))"

text \<open>
  A sequence of runs of \<open>llenar_tabla_en_sqlite\<close> on one store, each with its fetched
  dictionary and its clock value. A run that raises commits nothing and leaves the
  store as it found it.
\<close>

fun ingest_runs :: "database \<Rightarrow> (json \<times> int) list \<Rightarrow> database" where
  "ingest_runs db [] = db"
| "ingest_runs db ((diccionario, tiempo) # resto) =
     (case llenar_tabla_en_sqlite diccionario tiempo db of
        Inl e \<Rightarrow> ingest_runs db resto
      | Inr (db', hecho) \<Rightarrow> ingest_runs db' resto)"

section \<open>The claims' vocabulary\<close>

subsection \<open>Records, the filter and a run that ends normally\<close>

text \<open>
  Position \<open>i\<close> of a record as the store receives it: \<open>avion[i]\<close> bound to a \<open>?\<close>.
\<close>

definition campo :: "json \<Rightarrow> nat \<Rightarrow> error + sqlval" where
  "campo avion i = and_then (subscript_int avion i) bind_param"

text \<open>
  The NationalityFilter of section 4.3 of the spec, to be compared with the loop: the
  records whose country field equals the target nation, in their order.
\<close>

definition nationality_filter :: "json list \<Rightarrow> json list" where
  "nationality_filter aviones = filter (\<lambda>a. subscript_int a 2 = Inr (JStr ''Mexico'')) aviones"

text \<open>
  The fetched list of a response (empty when the response has none that the loop would
  walk) and the records of it that the filter retains.
\<close>

definition registros :: "json \<Rightarrow> json list" where
  "registros diccionario =
     (case subscript_str diccionario ''states'' of
        Inl e \<Rightarrow> []
      | Inr states \<Rightarrow>
          if truthy states then (case iterate states of Inl e \<Rightarrow> [] | Inr aviones \<Rightarrow> aviones)
          else [])"

definition retenidos :: "json \<Rightarrow> json list" where
  "retenidos diccionario = nationality_filter (registros diccionario)"

text \<open>The UNIQUE constraint on the column \<open>icao\<close>: no two values are equal. NULLs may repeat.\<close>

fun icao_unico :: "sqlval list \<Rightarrow> bool" where
  "icao_unico [] = True"
| "icao_unico (k # ks) = (\<not> list_ex (sql_eq k) ks \<and> icao_unico ks)"

text \<open>
  A retained record the loop body can store: the seven positions exist and can be bound,
  and the \<open>icao\<close> is not None.
\<close>

definition registro_valido :: "json \<Rightarrow> bool" where
  "registro_valido a =
     (isl (campo a 0) = False \<and> isl (campo a 1) = False \<and> isl (campo a 2) = False
      \<and> isl (campo a 3) = False \<and> isl (campo a 5) = False \<and> isl (campo a 6) = False
      \<and> isl (campo a 7) = False \<and> campo a 0 \<noteq> Inr SNull)"

text \<open>
  A record the loop gets past: it has a position 2, and if that is the target nation the
  record can be stored.
\<close>

definition registro_admitido :: "json \<Rightarrow> bool" where
  "registro_admitido a =
     (case subscript_int a 2 of
        Inl e \<Rightarrow> False
      | Inr pais \<Rightarrow> if pais = JStr ''Mexico'' then registro_valido a else True)"

text \<open>
  A response on which \<open>llenar_tabla_en_sqlite\<close> returns normally (lemma
  \<open>corrida_valida_iff\<close>): it has \<open>states\<close>, and \<open>states\<close> is empty or a sequence of records
  the loop gets past.
\<close>

definition corrida_valida :: "json \<Rightarrow> bool" where
  "corrida_valida diccionario =
     (case subscript_str diccionario ''states'' of
        Inl e \<Rightarrow> False
      | Inr states \<Rightarrow>
          if truthy states
          then (case iterate states of Inl e \<Rightarrow> False | Inr aviones \<Rightarrow> list_all registro_admitido aviones)
          else True)"

text \<open>A bound value that the column value \<open>k\<close> equals.\<close>

fun coincide :: "error + sqlval \<Rightarrow> sqlval \<Rightarrow> bool" where
  "coincide (Inr v) k = sql_eq k v"
| "coincide (Inl e) k = False"

text \<open>
  The row \<open>s\<close> of Snapshots is the one of record \<open>a\<close>: positions 3, 5, 6 and 7 as they came,
  the clock value of the run, and the key of a row of Avion_fisico with the record's
  \<open>icao\<close>.
\<close>

definition snapshot_de_registro :: "avion_fisico_fila list \<Rightarrow> int \<Rightarrow> json \<Rightarrow> snapshot_fila \<Rightarrow> bool" where
  "snapshot_de_registro tabla tiempo a s =
     (campo a 3 = Inr (posicion_temporal s) \<and> campo a 5 = Inr (longitud s)
      \<and> campo a 6 = Inr (latitud s) \<and> campo a 7 = Inr (altitud s)
      \<and> tiempo_de_captura s = tiempo
      \<and> list_ex (\<lambda>r. af_id r = sn_Avion_fisico_id s \<and> coincide (campo a 0) (icao r)) tabla)"

text \<open>The row \<open>r\<close> of Avion_fisico holds positions 0, 1 and 2 of record \<open>a\<close> as they came.\<close>

definition fila_de_registro :: "json \<Rightarrow> avion_fisico_fila \<Rightarrow> bool" where
  "fila_de_registro a r =
     (campo a 0 = Inr (icao r) \<and> campo a 1 = Inr (call_sign r) \<and> campo a 2 = Inr (pais_origen r))"

text \<open>The \<open>icao\<close> of row \<open>r\<close> is in no row of the table.\<close>

definition icao_nuevo :: "avion_fisico_fila list \<Rightarrow> avion_fisico_fila \<Rightarrow> bool" where
  "icao_nuevo tabla r = (\<not> list_ex (\<lambda>r0. sql_eq (icao r0) (icao r)) tabla)"

text \<open>
  A fetch response that lacks \<open>states\<close>, is empty, or is None (the answer of
  \<open>llamar_al_endpoint\<close> to a timeout).
\<close>

fun sin_states :: "http_reply \<Rightarrow> bool" where
  "sin_states Timed_out = True"
| "sin_states (Body j) = (if truthy j then contains_str j ''states'' = Inr False else True)"
| "sin_states Unreachable = False"
| "sin_states Body_not_json = False"

subsection \<open>Example inputs\<close>

text \<open>
  Three state vectors (their first nine positions): one Mexican aircraft seen twice under
  two call signs, and a Spanish one.
\<close>

definition avion_amx1 :: json where
  "avion_amx1 = JArr [JStr ''0d0a1b'', JStr ''AMX1'', JStr ''Mexico'', JInt 1700000000,
     JInt 1700000000, JFloat (- 99.1332), JFloat 19.4326, JFloat 2240, JBool False]"

definition avion_amx2 :: json where
  "avion_amx2 = JArr [JStr ''0d0a1b'', JStr ''AMX2'', JStr ''Mexico'', JInt 1700000600,
     JInt 1700000600, JFloat (- 74.006), JFloat 40.7128, JNull, JBool True]"

definition avion_ibe :: json where
  "avion_ibe = JArr [JStr ''3443d1'', JStr ''IBE6400'', JStr ''Spain'', JInt 1700000000,
     JInt 1700000000, JFloat (- 3.7038), JFloat 40.4168, JFloat 11000, JBool False]"

definition respuesta_con_mexicanos :: json where
  "respuesta_con_mexicanos =
     JObj [(''time'', JInt 1700000000), (''states'', JArr [avion_amx1, avion_ibe, avion_amx2])]"

definition respuesta_sin_mexicanos :: json where
  "respuesta_sin_mexicanos = JObj [(''time'', JInt 1700000000), (''states'', JArr [avion_ibe])]"

text \<open>A new store, and a store that already knows the Mexican aircraft.\<close>

definition almacen_vacio :: database where
  "almacen_vacio = \<lparr>Avion_fisico = [], Avion_fisico_seq = 0, Snapshots = [], Snapshots_seq = 0\<rparr>"

definition almacen_con_amx1 :: database where
  "almacen_con_amx1 =
     \<lparr>Avion_fisico = [\<lparr>af_id = 1, icao = SText ''0d0a1b'', call_sign = SText ''AMX1'',
                         pais_origen = SText ''Mexico''\<rparr>],
      Avion_fisico_seq = 1,
      Snapshots = [\<lparr>sn_id = 1, sn_Avion_fisico_id = 1, posicion_temporal = SInt 1700000000,
                     tiempo_de_captura = 1700000005, longitud = SReal (- 99.1332),
                     latitud = SReal 19.4326, altitud = SReal 2240\<rparr>],
      Snapshots_seq = 1\<rparr>"

text \<open>
  A run started with no path on the command line, and a run whose fetch response has no
  \<open>states\<close>; credentials and token are in order in both.
\<close>

definition entorno_sin_ruta :: entorno where
  "entorno_sin_ruta =
     \<lparr>sys_argv = [''Airplanes_ingest_flight_snapshots.py''],
      credentials_json = File_json (JObj [(''clientId'', JStr ''id''), (''clientSecret'', JStr ''secret'')]),
      token_endpoint = (\<lambda>i s. Body (JObj [(''access_token'', JStr ''token'')])),
      states_endpoint = (\<lambda>t. Body respuesta_con_mexicanos),
      reloj = 1700000700,
      almacen = almacen_vacio\<rparr>"

definition entorno_sin_states :: entorno where
  "entorno_sin_states =
     \<lparr>sys_argv = [''Airplanes_ingest_flight_snapshots.py'', ''vuelos.sqlite''],
      credentials_json = File_json (JObj [(''clientId'', JStr ''id''), (''clientSecret'', JStr ''secret'')]),
      token_endpoint = (\<lambda>i s. Body (JObj [(''access_token'', JStr ''token'')])),
      states_endpoint = (\<lambda>t. Body (JObj [(''time'', JInt 1700000000)])),
      reloj = 1700000700,
      almacen = almacen_con_amx1\<rparr>"

section \<open>Properties of the distance job\<close>

subsection \<open>Rounding, the range of the arccos argument, and \<open>\<pi>\<close>\<close>

lemma and_then_Inr [simp]: "and_then (Inr x) f = f x"
  by (simp add: and_then_def)

lemma and_then_Inl [simp]: "and_then (Inl e) f = Inl e"
  by (simp add: and_then_def)

lemma round_half_even_near:
  assumes "of_int n - 1 / 2 < x" "x < of_int n + 1 / 2"
  shows "round_half_even x = n"
proof -
  have "\<lfloor>x\<rfloor> = n \<or> \<lfloor>x\<rfloor> = n - 1"
    using assms by linarith
  then show ?thesis
  proof
    assume f: "\<lfloor>x\<rfloor> = n"
    then have "x - of_int \<lfloor>x\<rfloor> < 1 / 2" using assms by simp
    then show ?thesis using f by (simp add: round_half_even_def Let_def)
  next
    assume f: "\<lfloor>x\<rfloor> = n - 1"
    then have "1 / 2 < x - of_int \<lfloor>x\<rfloor>" using assms by simp
    then show ?thesis using f by (simp add: round_half_even_def Let_def)
  qed
qed




lemma round_half_even_of_int [simp]: "round_half_even (of_int n) = n"
  by (rule round_half_even_near) simp_all


lemma round_py_zero [simp]: "round_py 0 n = 0"
  using round_half_even_of_int [of 0] by (simp add: round_py_def del: round_half_even_of_int)

lemma cosine_rule_bounds:
  fixes a b c :: real
  shows "- 1 \<le> sin a * sin b + cos a * cos b * cos c"
    and "sin a * sin b + cos a * cos b * cos c \<le> 1"
proof -
  let ?t = "cos c"
  have t: "0 \<le> 1 + ?t" "0 \<le> 1 - ?t"
    using cos_ge_minus_one [of c] cos_le_one [of c] by linarith+
  have eq: "sin a * sin b + cos a * cos b * ?t
      = (1 + ?t) / 2 * cos (a - b) + (1 - ?t) / 2 * (- cos (a + b))"
    by (simp add: cos_diff cos_add field_simps)
  have p: "0 \<le> (1 + ?t) / 2" "0 \<le> (1 - ?t) / 2" using t by simp_all
  have u1: "(1 + ?t) / 2 * cos (a - b) \<le> (1 + ?t) / 2 * 1"
    by (rule mult_left_mono [OF _ p(1)]) simp
  have u2: "(1 - ?t) / 2 * (- cos (a + b)) \<le> (1 - ?t) / 2 * 1"
    by (rule mult_left_mono [OF _ p(2)]) (simp add: minus_le_iff)
  have l1: "(1 + ?t) / 2 * (- 1) \<le> (1 + ?t) / 2 * cos (a - b)"
    by (rule mult_left_mono [OF _ p(1)]) simp
  have l2: "(1 - ?t) / 2 * (- 1) \<le> (1 - ?t) / 2 * (- cos (a + b))"
    by (rule mult_left_mono [OF _ p(2)]) simp
  show "- 1 \<le> sin a * sin b + cos a * cos b * cos c"
    unfolding eq using l1 l2 by (simp add: field_simps)
  show "sin a * sin b + cos a * cos b * cos c \<le> 1"
    unfolding eq using u1 u2 by (simp add: field_simps)
qed

lemma distancia_km_value:
  "distancia_km a b c d =
     Inr (round_py (6371 * arccos (sin a * sin c + cos a * cos c * cos (b - d))) 2)"
  using cosine_rule_bounds [of a c "b - d"]
  by (simp add: distancia_km_def acos_def)







text \<open>
  Over the reals the argument of \<open>acos\<close> for two equal points is exactly 1 and the distance
  is 0. Nothing follows from this for Python's floats, whose \<open>sin\<close> and \<open>cos\<close> are rounded.
\<close>

lemma sin_sin_add_cos_cos: "sin (x :: real) * sin x + cos x * cos x = 1"
  using sin_cos_squared_add [of x] by (simp only: power2_eq_square)

lemma distancia_km_same_point: "distancia_km a b a b = Inr 0"
  by (simp add: distancia_km_value sin_sin_add_cos_cos)

subsection \<open>Bounds and symmetry of the distance\<close>




subsection \<open>The argument of \<open>acos\<close> is passed as computed\<close>

text \<open>
  C3. The claim asks for the argument of arccos to be clamped to \<open>[-1, 1]\<close>. Line 73 of
  the source passes the sum to \<open>acos\<close> as it is, and \<open>acos\<close> raises above 1: here at
  \<open>1 + 2^-52\<close>, the float \<open>1.0000000000000002\<close> next after 1.
\<close>

theorem acos_rejects_next_float_after_one: "acos (1 + 1 / 2 ^ 52) = Inl ValueError"
  by (simp add: acos_def)

subsection \<open>The pass over the table\<close>



lemma sql_eq_sym: "sql_eq a b = sql_eq b a"
  by (cases a; cases b) auto


lemma claves_distintas_self:
  "claves_distintas (map Avion_fisico_id L) \<Longrightarrow> a \<in> set L \<Longrightarrow> sql_eq (Avion_fisico_id a) (Avion_fisico_id a)"
  by (induction L) auto




section \<open>Properties of the ingestion job\<close>

subsection \<open>Sequencing and SQL equality\<close>

lemma and_then_eq_Inr: "and_then r f = Inr y \<longleftrightarrow> (\<exists>x. r = Inr x \<and> f x = Inr y)"
  by (cases r) simp_all
lemma sql_eq_refl: "v \<noteq> SNull \<Longrightarrow> sql_eq v v"
  by (cases v) simp_all

lemma sql_eq_null [simp]: "\<not> sql_eq SNull v" "\<not> sql_eq v SNull"
  by (cases v, simp_all)+

lemma sql_eq_trans: "sql_eq a b \<Longrightarrow> sql_eq b c \<Longrightarrow> sql_eq a c"
  by (cases a; cases b; cases c) auto

subsection \<open>The three statements\<close>

lemma insert_or_ignore_Snapshots [simp]:
  "Snapshots (insert_or_ignore_avion i c p db) = Snapshots db"
  "Snapshots_seq (insert_or_ignore_avion i c p db) = Snapshots_seq db"
  by (simp_all add: insert_or_ignore_avion_def Let_def)

lemma insert_or_ignore_Avion:
  "Avion_fisico (insert_or_ignore_avion i c p db) =
     Avion_fisico db @
       (if list_ex (\<lambda>r. sql_eq (icao r) i) (Avion_fisico db) then []
        else [\<lparr>af_id = nuevo_id (Avion_fisico_seq db) (map af_id (Avion_fisico db)),
               icao = i, call_sign = c, pais_origen = p\<rparr>])"
  by (simp add: insert_or_ignore_avion_def Let_def)

lemma insert_snapshot_Avion [simp]:
  "Avion_fisico (insert_snapshot a pt tc lo la al db) = Avion_fisico db"
  by (simp add: insert_snapshot_def Let_def)

lemma insert_snapshot_Snapshots:
  "Snapshots (insert_snapshot a pt tc lo la al db) =
     Snapshots db @ [\<lparr>sn_id = nuevo_id (Snapshots_seq db) (map sn_id (Snapshots db)),
        sn_Avion_fisico_id = a, posicion_temporal = pt, tiempo_de_captura = tc,
        longitud = lo, latitud = la, altitud = al\<rparr>]"
  by (simp add: insert_snapshot_def Let_def)

lemma icao_unico_append:
  "icao_unico (ks @ [k]) \<longleftrightarrow> icao_unico ks \<and> \<not> list_ex (\<lambda>x. sql_eq x k) ks"
  by (induction ks) (auto simp: list_ex_iff sql_eq_sym)

lemma insert_or_ignore_unico:
  "icao_unico (map icao (Avion_fisico db)) \<Longrightarrow>
   icao_unico (map icao (Avion_fisico (insert_or_ignore_avion i c p db)))"
  by (auto simp: insert_or_ignore_Avion icao_unico_append list_ex_iff)

lemma select_id_after_insert:
  "select_id i (insert_or_ignore_avion i c p db) = None \<longleftrightarrow> i = SNull"
proof (cases "i = SNull")
  case True
  then show ?thesis
    by (simp add: select_id_def find_None_iff)
next
  case False
  then have "\<exists>r \<in> set (Avion_fisico (insert_or_ignore_avion i c p db)). sql_eq (icao r) i"
    by (auto simp: insert_or_ignore_Avion list_ex_iff sql_eq_refl)
  then show ?thesis using False
    by (auto simp: select_id_def find_None_iff)
qed

lemma select_id_Some:
  "select_id i db = Some n \<Longrightarrow> list_ex (\<lambda>r. af_id r = n \<and> sql_eq (icao r) i) (Avion_fisico db)"
  by (auto simp: select_id_def list_ex_iff find_Some_iff)

subsection \<open>One record\<close>

lemma guardar_avion_Inr:
  assumes "guardar_avion t a db = Inr db'"
  obtains vi vc vp v3 v5 v6 v7 n where
    "campo a 0 = Inr vi" "campo a 1 = Inr vc" "campo a 2 = Inr vp" "campo a 3 = Inr v3"
    "campo a 5 = Inr v5" "campo a 6 = Inr v6" "campo a 7 = Inr v7"
    "select_id vi (insert_or_ignore_avion vi vc vp db) = Some n"
    "db' = insert_snapshot n v3 t v5 v6 v7 (insert_or_ignore_avion vi vc vp db)"
proof -
  from assms obtain j0 j1 j2 j3 j5 j6 j7 vi vc vp where s:
    "subscript_int a 0 = Inr j0" "subscript_int a 1 = Inr j1" "subscript_int a 2 = Inr j2"
    "subscript_int a 3 = Inr j3" "subscript_int a 5 = Inr j5" "subscript_int a 6 = Inr j6"
    "subscript_int a 7 = Inr j7"
    "bind_param j0 = Inr vi" "bind_param j1 = Inr vc" "bind_param j2 = Inr vp"
    and r: "(case select_id vi (insert_or_ignore_avion vi vc vp db) of
            None \<Rightarrow> Inl TypeError
          | Some id_del_avion \<Rightarrow>
              and_then (bind_param j3) (\<lambda>v_posicion_temporal.
              and_then (bind_param j5) (\<lambda>v_longitud.
              and_then (bind_param j6) (\<lambda>v_latitud.
              and_then (bind_param j7) (\<lambda>v_altitud.
                Inr (insert_snapshot id_del_avion v_posicion_temporal t
                       v_longitud v_latitud v_altitud
                       (insert_or_ignore_avion vi vc vp db))))))) = Inr db'"
    unfolding guardar_avion_def and_then_eq_Inr Let_def by blast
  from r obtain n where n: "select_id vi (insert_or_ignore_avion vi vc vp db) = Some n"
    by (auto split: option.splits)
  from r n obtain v3 v5 v6 v7 where b:
    "bind_param j3 = Inr v3" "bind_param j5 = Inr v5" "bind_param j6 = Inr v6"
    "bind_param j7 = Inr v7"
    "db' = insert_snapshot n v3 t v5 v6 v7 (insert_or_ignore_avion vi vc vp db)"
    by (auto simp: and_then_eq_Inr)
  show thesis
    by (rule that [of vi vc vp v3 v5 v6 v7 n]) (simp_all only: campo_def s b n and_then_Inr)
qed

lemma guardar_avion_valido:
  assumes "registro_valido a"
  shows "\<exists>db'. guardar_avion t a db = Inr db'"
proof -
  from assms obtain vi vc vp v3 v5 v6 v7 where c:
    "campo a 0 = Inr vi" "campo a 1 = Inr vc" "campo a 2 = Inr vp" "campo a 3 = Inr v3"
    "campo a 5 = Inr v5" "campo a 6 = Inr v6" "campo a 7 = Inr v7" and nn: "vi \<noteq> SNull"
    unfolding registro_valido_def
    by (metis sum.collapse(2))
  from nn obtain n where n: "select_id vi (insert_or_ignore_avion vi vc vp db) = Some n"
    using select_id_after_insert by fastforce
  from c obtain j0 j1 j2 j3 j5 j6 j7 where j:
    "subscript_int a 0 = Inr j0" "bind_param j0 = Inr vi"
    "subscript_int a 1 = Inr j1" "bind_param j1 = Inr vc"
    "subscript_int a 2 = Inr j2" "bind_param j2 = Inr vp"
    "subscript_int a 3 = Inr j3" "bind_param j3 = Inr v3"
    "subscript_int a 5 = Inr j5" "bind_param j5 = Inr v5"
    "subscript_int a 6 = Inr j6" "bind_param j6 = Inr v6"
    "subscript_int a 7 = Inr j7" "bind_param j7 = Inr v7"
    unfolding campo_def and_then_eq_Inr by blast
  show ?thesis
    by (simp add: guardar_avion_def j n Let_def del: One_nat_def)
qed

lemma guardar_avion_Inr_valido:
  assumes "guardar_avion t a db = Inr db'"
  shows "registro_valido a"
proof -
  from assms obtain vi vc vp v3 v5 v6 v7 n where c:
    "campo a 0 = Inr vi" "campo a 1 = Inr vc" "campo a 2 = Inr vp" "campo a 3 = Inr v3"
    "campo a 5 = Inr v5" "campo a 6 = Inr v6" "campo a 7 = Inr v7"
    "select_id vi (insert_or_ignore_avion vi vc vp db) = Some n"
    by (rule guardar_avion_Inr)
  then have "vi \<noteq> SNull" using select_id_after_insert [of vi vc vp db] by auto
  then show ?thesis using c by (simp add: registro_valido_def)
qed

lemma snapshot_de_registro_mono:
  "snapshot_de_registro tabla t a s \<Longrightarrow> snapshot_de_registro (tabla @ mas) t a s"
  by (auto simp: snapshot_de_registro_def list_ex_iff)

lemma icao_nuevo_prefix: "icao_nuevo (tabla @ mas) r \<Longrightarrow> icao_nuevo tabla r"
  by (auto simp: icao_nuevo_def list_ex_iff)

lemma guardar_avion_Avion:
  assumes "guardar_avion t a db = Inr db'"
  shows "\<exists>nuevos. Avion_fisico db' = Avion_fisico db @ nuevos
           \<and> list_all (fila_de_registro a) nuevos
           \<and> list_all (icao_nuevo (Avion_fisico db)) nuevos"
proof -
  from assms obtain vi vc vp v3 v5 v6 v7 n where c:
    "campo a 0 = Inr vi" "campo a 1 = Inr vc" "campo a 2 = Inr vp"
    "db' = insert_snapshot n v3 t v5 v6 v7 (insert_or_ignore_avion vi vc vp db)"
    by (rule guardar_avion_Inr)
  show ?thesis
    by (simp add: c insert_or_ignore_Avion fila_de_registro_def icao_nuevo_def del: One_nat_def)
qed

lemma guardar_avion_Snapshots:
  assumes "guardar_avion t a db = Inr db'"
  shows "\<exists>s. Snapshots db' = Snapshots db @ [s] \<and> snapshot_de_registro (Avion_fisico db') t a s"
proof -
  from assms obtain vi vc vp v3 v5 v6 v7 n where c:
    "campo a 0 = Inr vi" "campo a 3 = Inr v3" "campo a 5 = Inr v5" "campo a 6 = Inr v6"
    "campo a 7 = Inr v7"
    "select_id vi (insert_or_ignore_avion vi vc vp db) = Some n"
    "db' = insert_snapshot n v3 t v5 v6 v7 (insert_or_ignore_avion vi vc vp db)"
    by (rule guardar_avion_Inr)
  have "list_ex (\<lambda>r. af_id r = n \<and> sql_eq (icao r) vi)
          (Avion_fisico (insert_or_ignore_avion vi vc vp db))"
    using c(6) by (rule select_id_Some)
  then show ?thesis
    by (simp add: c insert_snapshot_Snapshots snapshot_de_registro_def)
qed

lemma guardar_avion_unico:
  assumes "guardar_avion t a db = Inr db'"
    and "icao_unico (map icao (Avion_fisico db))"
  shows "icao_unico (map icao (Avion_fisico db'))"
proof -
  from assms(1) obtain vi vc vp v3 v5 v6 v7 n where
    "db' = insert_snapshot n v3 t v5 v6 v7 (insert_or_ignore_avion vi vc vp db)"
    by (rule guardar_avion_Inr)
  then show ?thesis using assms(2) by (simp add: insert_or_ignore_unico)
qed

subsection \<open>The loop\<close>

lemma recorrer_aviones_Cons_Inr:
  assumes "recorrer_aviones t (a # resto) db = Inr db'"
  obtains (skip) "subscript_int a 2 \<noteq> Inr (JStr ''Mexico'')" "nationality_filter (a # resto) = nationality_filter resto"
      "recorrer_aviones t resto db = Inr db'"
    | (keep) db1 where "nationality_filter (a # resto) = a # nationality_filter resto"
      "guardar_avion t a db = Inr db1" "recorrer_aviones t resto db1 = Inr db'"
  using assms
  by (auto simp: and_then_eq_Inr nationality_filter_def split: if_splits)

lemma recorrer_aviones_Avion:
  assumes "recorrer_aviones t avs db = Inr db'"
  shows "\<exists>nuevos. Avion_fisico db' = Avion_fisico db @ nuevos
           \<and> list_all (\<lambda>r. list_ex (\<lambda>a. fila_de_registro a r) (nationality_filter avs)) nuevos
           \<and> list_all (icao_nuevo (Avion_fisico db)) nuevos"
  using assms
proof (induction avs arbitrary: db)
  case Nil
  then show ?case by simp
next
  case (Cons a resto)
  from Cons.prems show ?case
  proof (cases rule: recorrer_aviones_Cons_Inr)
    case skip
    then show ?thesis using Cons.IH [of db] by simp
  next
    case (keep db1)
    from guardar_avion_Avion [OF keep(2)] obtain n1 where n1:
      "Avion_fisico db1 = Avion_fisico db @ n1" "list_all (fila_de_registro a) n1"
      "list_all (icao_nuevo (Avion_fisico db)) n1" by blast
    from Cons.IH [OF keep(3)] obtain n2 where n2:
      "Avion_fisico db' = Avion_fisico db1 @ n2"
      "list_all (\<lambda>r. list_ex (\<lambda>a. fila_de_registro a r) (nationality_filter resto)) n2"
      "list_all (icao_nuevo (Avion_fisico db1)) n2" by blast
    have "list_all (icao_nuevo (Avion_fisico db)) n2"
      using n2(3) unfolding n1(1) by (auto simp: list_all_iff intro: icao_nuevo_prefix)
    then show ?thesis
      using n1 n2 by (intro exI [of _ "n1 @ n2"]) (auto simp: keep(1) list_all_iff)
  qed
qed

lemma recorrer_aviones_Snapshots:
  assumes "recorrer_aviones t avs db = Inr db'"
  shows "\<exists>nuevas. Snapshots db' = Snapshots db @ nuevas
           \<and> list_all2 (snapshot_de_registro (Avion_fisico db') t) (nationality_filter avs) nuevas"
  using assms
proof (induction avs arbitrary: db)
  case Nil
  then show ?case by (simp add: nationality_filter_def)
next
  case (Cons a resto)
  from Cons.prems show ?case
  proof (cases rule: recorrer_aviones_Cons_Inr)
    case skip
    then show ?thesis using Cons.IH [of db] by simp
  next
    case (keep db1)
    from guardar_avion_Snapshots [OF keep(2)] obtain s where s:
      "Snapshots db1 = Snapshots db @ [s]" "snapshot_de_registro (Avion_fisico db1) t a s"
      by blast
    from Cons.IH [OF keep(3)] obtain n2 where n2:
      "Snapshots db' = Snapshots db1 @ n2"
      "list_all2 (snapshot_de_registro (Avion_fisico db') t) (nationality_filter resto) n2"
      by blast
    from recorrer_aviones_Avion [OF keep(3)] obtain mas where
      "Avion_fisico db' = Avion_fisico db1 @ mas" by blast
    then have "snapshot_de_registro (Avion_fisico db') t a s"
      using s(2) by (simp add: snapshot_de_registro_mono)
    then show ?thesis
      using s(1) n2 by (intro exI [of _ "s # n2"]) (simp add: keep(1))
  qed
qed

lemma recorrer_aviones_unico:
  assumes "recorrer_aviones t avs db = Inr db'"
    and "icao_unico (map icao (Avion_fisico db))"
  shows "icao_unico (map icao (Avion_fisico db'))"
  using assms
proof (induction avs arbitrary: db)
  case Nil
  then show ?case by simp
next
  case (Cons a resto)
  from Cons.prems(1) show ?case
  proof (cases rule: recorrer_aviones_Cons_Inr)
    case skip
    then show ?thesis using Cons.IH Cons.prems(2) by simp
  next
    case (keep db1)
    then show ?thesis using Cons.IH guardar_avion_unico Cons.prems(2) by blast
  qed
qed
lemma recorrer_aviones_sin_retenidos:
  assumes "recorrer_aviones t avs db = Inr db'" and "nationality_filter avs = []"
  shows "db' = db"
  using assms
proof (induction avs arbitrary: db)
  case Nil
  then show ?case by simp
next
  case (Cons a resto)
  from Cons.prems(1) show ?case
  proof (cases rule: recorrer_aviones_Cons_Inr)
    case skip
    then show ?thesis using Cons.IH Cons.prems(2) by simp
  next
    case (keep db1)
    then show ?thesis using Cons.prems(2) by simp
  qed
qed
lemma recorrer_aviones_valida:
  "(\<exists>db'. recorrer_aviones t avs db = Inr db') \<longleftrightarrow> list_all registro_admitido avs"
proof (induction avs arbitrary: db)
  case Nil
  then show ?case by simp
next
  case (Cons a resto)
  show ?case
  proof (cases "subscript_int a 2")
    case (Inl e)
    then show ?thesis by (simp add: registro_admitido_def)
  next
    case (Inr pais)
    show ?thesis
    proof (cases "pais = JStr ''Mexico''")
      case False
      then show ?thesis using Inr Cons.IH [of db] by (simp add: registro_admitido_def)
    next
      case True
      show ?thesis
      proof (cases "registro_valido a")
        case v: True
        from guardar_avion_valido [OF v] obtain db1 where "guardar_avion t a db = Inr db1"
          by blast
        then show ?thesis using Inr True v Cons.IH [of db1] by (simp add: registro_admitido_def)
      next
        case nv: False
        then have "\<And>d. guardar_avion t a db \<noteq> Inr d"
          using guardar_avion_Inr_valido by blast
        then have "\<exists>e. guardar_avion t a db = Inl e"
          by (cases "guardar_avion t a db") auto
        then show ?thesis using Inr True nv by (auto simp: registro_admitido_def)
      qed
    qed
  qed
qed

subsection \<open>The whole function, and sequences of runs\<close>

lemma llenar_tabla_en_sqlite_Inr:
  assumes "llenar_tabla_en_sqlite d t db = Inr (db', hecho)"
  obtains (vacio) "registros d = []" "db' = db" "hecho = [Print Msg_error_formato_json]"
    | (lleno) "recorrer_aviones t (registros d) db = Inr db'"
        "hecho = [Commit, Print Msg_tablas_llenadas_con_exito]" "registros d \<noteq> []"
proof -
  from assms obtain states where st: "subscript_str d ''states'' = Inr states"
    by (auto simp: llenar_tabla_en_sqlite_def and_then_eq_Inr)
  show thesis
  proof (cases "truthy states")
    case False
    then show ?thesis using assms st
      by (intro vacio) (simp_all add: llenar_tabla_en_sqlite_def registros_def)
  next
    case True
    with assms st obtain avs where avs: "iterate states = Inr avs"
      "recorrer_aviones t avs db = Inr db'" "hecho = [Commit, Print Msg_tablas_llenadas_con_exito]"
      by (auto simp: llenar_tabla_en_sqlite_def and_then_eq_Inr)
    have "avs \<noteq> []" using True avs(1) by (cases states) auto
    then show ?thesis using avs st True
      by (intro lleno) (simp_all add: registros_def)
  qed
qed

lemma llenar_tabla_en_sqlite_valida:
  assumes "corrida_valida d"
  shows "\<exists>db'. llenar_tabla_en_sqlite d t db =
     Inr (db', if registros d = [] then [Print Msg_error_formato_json]
               else [Commit, Print Msg_tablas_llenadas_con_exito])"
proof -
  from assms obtain states where st: "subscript_str d ''states'' = Inr states"
    by (cases "subscript_str d ''states''") (auto simp: corrida_valida_def)
  show ?thesis
  proof (cases "truthy states")
    case False
    then show ?thesis using st by (simp add: llenar_tabla_en_sqlite_def registros_def)
  next
    case True
    with assms st obtain avs where avs: "iterate states = Inr avs" "list_all registro_admitido avs"
      by (cases "iterate states") (auto simp: corrida_valida_def)
    have ne: "avs \<noteq> []" using True avs(1) by (cases states) auto
    from avs(2) obtain db' where "recorrer_aviones t avs db = Inr db'"
      using recorrer_aviones_valida by blast
    then show ?thesis using st True avs(1) ne
      by (simp add: llenar_tabla_en_sqlite_def registros_def)
  qed
qed

lemma llenar_tabla_en_sqlite_Inr_valida:
  assumes "llenar_tabla_en_sqlite d t db = Inr x"
  shows "corrida_valida d"
proof -
  from assms obtain states where st: "subscript_str d ''states'' = Inr states"
    by (auto simp: llenar_tabla_en_sqlite_def and_then_eq_Inr)
  show ?thesis
  proof (cases "truthy states")
    case False
    then show ?thesis using st by (simp add: corrida_valida_def)
  next
    case True
    with assms st obtain avs db' where avs: "iterate states = Inr avs"
      "recorrer_aviones t avs db = Inr db'"
      by (auto simp: llenar_tabla_en_sqlite_def and_then_eq_Inr)
    then have "list_all registro_admitido avs" using recorrer_aviones_valida by blast
    then show ?thesis using st True avs(1) by (simp add: corrida_valida_def)
  qed
qed

text \<open>
  \<open>corrida_valida\<close> is exactly the condition under which the function returns normally,
  whatever the store and the clock.
\<close>

lemma corrida_valida_iff:
  "corrida_valida d \<longleftrightarrow> (\<exists>x. llenar_tabla_en_sqlite d t db = Inr x)"
  using llenar_tabla_en_sqlite_valida [of d t db] llenar_tabla_en_sqlite_Inr_valida [of d t db]
  by blast

lemma llenar_tabla_en_sqlite_Snapshots_length:
  assumes "llenar_tabla_en_sqlite d t db = Inr (db', hecho)"
  shows "\<exists>nuevas. Snapshots db' = Snapshots db @ nuevas \<and> length nuevas = length (retenidos d)"
  using assms
proof (cases rule: llenar_tabla_en_sqlite_Inr)
  case vacio
  then show ?thesis by (simp add: retenidos_def nationality_filter_def)
next
  case lleno
  from recorrer_aviones_Snapshots [OF lleno(1)] show ?thesis
    unfolding retenidos_def by (auto dest: list_all2_lengthD)
qed

lemma ingest_runs_append:
  "ingest_runs db (xs @ ys) = ingest_runs (ingest_runs db xs) ys"
  by (induction xs arbitrary: db) (auto split: sum.splits)

lemma ingest_runs_Snapshots_prefix:
  "\<exists>nuevas. Snapshots (ingest_runs db corridas) = Snapshots db @ nuevas"
proof (induction corridas arbitrary: db)
  case Nil
  then show ?case by simp
next
  case (Cons c corridas)
  obtain d t where c: "c = (d, t)" by (cases c)
  show ?case
  proof (cases "llenar_tabla_en_sqlite d t db")
    case (Inl e)
    then show ?thesis using Cons.IH [of db] c by simp
  next
    case (Inr x)
    obtain db1 hecho where x: "x = (db1, hecho)" by (cases x)
    from llenar_tabla_en_sqlite_Snapshots_length [OF Inr [unfolded x]] obtain n1 where
      "Snapshots db1 = Snapshots db @ n1" by blast
    moreover from Cons.IH [of db1] obtain n2 where
      "Snapshots (ingest_runs db1 corridas) = Snapshots db1 @ n2" by blast
    ultimately show ?thesis using c Inr x by simp
  qed
qed
lemma llenar_tabla_en_sqlite_Avion:
  assumes "llenar_tabla_en_sqlite d t db = Inr (db', hecho)"
  shows "\<exists>nuevos. Avion_fisico db' = Avion_fisico db @ nuevos
           \<and> list_all (icao_nuevo (Avion_fisico db)) nuevos"
  using assms
proof (cases rule: llenar_tabla_en_sqlite_Inr)
  case vacio
  then show ?thesis by simp
next
  case lleno
  from recorrer_aviones_Avion [OF lleno(1)] show ?thesis by blast
qed

lemma llenar_tabla_en_sqlite_unico:
  assumes "llenar_tabla_en_sqlite d t db = Inr (db', hecho)"
    and "icao_unico (map icao (Avion_fisico db))"
  shows "icao_unico (map icao (Avion_fisico db'))"
  using assms(1)
proof (cases rule: llenar_tabla_en_sqlite_Inr)
  case vacio
  then show ?thesis using assms(2) by simp
next
  case lleno
  then show ?thesis using assms(2) recorrer_aviones_unico by blast
qed

lemma ingest_runs_unico:
  "icao_unico (map icao (Avion_fisico db)) \<Longrightarrow>
   icao_unico (map icao (Avion_fisico (ingest_runs db corridas)))"
proof (induction corridas arbitrary: db)
  case Nil
  then show ?case by simp
next
  case (Cons c corridas)
  obtain d t where c: "c = (d, t)" by (cases c)
  show ?case
  proof (cases "llenar_tabla_en_sqlite d t db")
    case (Inl e)
    then show ?thesis using Cons c by simp
  next
    case (Inr x)
    obtain db1 hecho where x: "x = (db1, hecho)" by (cases x)
    have "icao_unico (map icao (Avion_fisico db1))"
      using llenar_tabla_en_sqlite_unico [OF Inr [unfolded x] Cons.prems] .
    then show ?thesis using Cons.IH [of db1] c Inr x by simp
  qed
qed

lemma ingest_runs_Avion_prefix:
  "\<exists>nuevos. Avion_fisico (ingest_runs db corridas) = Avion_fisico db @ nuevos"
proof (induction corridas arbitrary: db)
  case Nil
  then show ?case by simp
next
  case (Cons c corridas)
  obtain d t where c: "c = (d, t)" by (cases c)
  show ?case
  proof (cases "llenar_tabla_en_sqlite d t db")
    case (Inl e)
    then show ?thesis using Cons.IH [of db] c by simp
  next
    case (Inr x)
    obtain db1 hecho where x: "x = (db1, hecho)" by (cases x)
    from llenar_tabla_en_sqlite_Avion [OF Inr [unfolded x]] obtain n1 where
      "Avion_fisico db1 = Avion_fisico db @ n1" by blast
    moreover from Cons.IH [of db1] obtain n2 where
      "Avion_fisico (ingest_runs db1 corridas) = Avion_fisico db1 @ n2" by blast
    ultimately show ?thesis using c Inr x by simp
  qed
qed

lemma icao_unico_filter:
  assumes "icao_unico (map icao tabla)" and "r \<in> set tabla" and "sql_eq (icao r) k"
  shows "filter (\<lambda>x. sql_eq (icao x) k) tabla = [r]"
  using assms
proof (induction tabla)
  case Nil
  then show ?case by simp
next
  case (Cons x tabla)
  show ?case
  proof (cases "sql_eq (icao x) k")
    case True
    have none: "\<And>y. y \<in> set tabla \<Longrightarrow> \<not> sql_eq (icao y) k"
    proof
      fix y assume y: "y \<in> set tabla" and "sql_eq (icao y) k"
      then have "sql_eq (icao x) (icao y)"
        using True sql_eq_trans sql_eq_sym by blast
      then show False using Cons.prems(1) y by (auto simp: list_ex_iff)
    qed
    then have "r = x" using Cons.prems(2,3) by auto
    moreover have "filter (\<lambda>x. sql_eq (icao x) k) tabla = []"
      using none by (simp add: filter_empty_conv)
    ultimately show ?thesis using True by simp
  next
    case False
    then have "r \<in> set tabla" using Cons.prems(2,3) by auto
    then show ?thesis using Cons.IH Cons.prems(1,3) False by simp
  qed
qed

lemma retenido_tiene_fila:
  assumes "llenar_tabla_en_sqlite d t db = Inr (db', hecho)" and "a \<in> set (retenidos d)"
  shows "\<exists>k r. campo a 0 = Inr k \<and> r \<in> set (Avion_fisico db') \<and> sql_eq (icao r) k"
  using assms(1)
proof (cases rule: llenar_tabla_en_sqlite_Inr)
  case vacio
  then show ?thesis using assms(2) by (simp add: retenidos_def nationality_filter_def)
next
  case lleno
  from recorrer_aviones_Snapshots [OF lleno(1)] obtain nuevas where
    "list_all2 (snapshot_de_registro (Avion_fisico db') t) (retenidos d) nuevas"
    unfolding retenidos_def by blast
  with assms(2) obtain s where "snapshot_de_registro (Avion_fisico db') t a s"
    by (auto simp: list_all2_conv_all_nth in_set_conv_nth)
  then obtain r where r: "r \<in> set (Avion_fisico db')" "coincide (campo a 0) (icao r)"
    by (auto simp: snapshot_de_registro_def list_ex_iff)
  then show ?thesis by (cases "campo a 0") auto
qed

subsection \<open>Evaluating the examples\<close>

lemmas ejemplos = avion_amx1_def avion_amx2_def avion_ibe_def respuesta_con_mexicanos_def
  respuesta_sin_mexicanos_def almacen_vacio_def almacen_con_amx1_def

lemmas evaluar = llenar_tabla_en_sqlite_def guardar_avion_def insert_or_ignore_avion_def
  select_id_def insert_snapshot_def nuevo_id_def Let_def

lemma corrida_valida_respuesta_con_mexicanos: "corrida_valida respuesta_con_mexicanos"
  by (simp add: ejemplos corrida_valida_def registro_admitido_def registro_valido_def
        campo_def del: One_nat_def)

lemma retenidos_respuesta_con_mexicanos:
  "retenidos respuesta_con_mexicanos = [avion_amx1, avion_amx2]"
  by (simp add: ejemplos retenidos_def registros_def nationality_filter_def)

subsection \<open>One identity row per \<open>icao\<close>\<close>

text \<open>
  C1. Start from a store whose \<open>icao\<close> column is unique (a new store is), let any runs
  \<open>antes\<close> come first, then a run that returns normally and retains a record \<open>a\<close>. After
  that run exactly one row of Avion_fisico has the \<open>icao\<close> of \<open>a\<close>, and after any further
  runs \<open>despues\<close> the rows with that \<open>icao\<close> are still that one row, key and all: no
  duplicate, no new key.
\<close>

theorem one_identity_row_per_icao:
  assumes "icao_unico (map icao (Avion_fisico db))"
    and "corrida_valida d"
    and "a \<in> set (retenidos d)"
  shows "\<exists>k r. campo a 0 = Inr k
     \<and> filter (\<lambda>x. sql_eq (icao x) k) (Avion_fisico (ingest_runs db (antes @ [(d, t)]))) = [r]
     \<and> filter (\<lambda>x. sql_eq (icao x) k)
           (Avion_fisico (ingest_runs db (antes @ (d, t) # despues))) = [r]"
proof -
  let ?db1 = "ingest_runs db antes"
  from llenar_tabla_en_sqlite_valida [OF assms(2)] obtain db2 hecho where
    run: "llenar_tabla_en_sqlite d t ?db1 = Inr (db2, hecho)" by blast
  have two: "ingest_runs db (antes @ [(d, t)]) = db2"
    by (simp add: ingest_runs_append run)
  have three: "ingest_runs db (antes @ (d, t) # despues) = ingest_runs db2 despues"
    by (simp add: ingest_runs_append run)
  have u1: "icao_unico (map icao (Avion_fisico ?db1))"
    using assms(1) by (rule ingest_runs_unico)
  have u2: "icao_unico (map icao (Avion_fisico db2))"
    using run u1 by (rule llenar_tabla_en_sqlite_unico)
  have u3: "icao_unico (map icao (Avion_fisico (ingest_runs db2 despues)))"
    using u2 by (rule ingest_runs_unico)
  from retenido_tiene_fila [OF run assms(3)] obtain k r where
    k: "campo a 0 = Inr k" and r: "r \<in> set (Avion_fisico db2)" "sql_eq (icao r) k" by blast
  from ingest_runs_Avion_prefix [of db2 despues] r(1)
  have r3: "r \<in> set (Avion_fisico (ingest_runs db2 despues))" by auto
  show ?thesis
    using k icao_unico_filter [OF u2 r] icao_unico_filter [OF u3 r3 r(2)]
    unfolding two three by blast
qed

text \<open>
  C1 on a new store: a run that retains nothing, a run that sees the Mexican aircraft
  twice, and the same response once more.
\<close>

theorem one_identity_row_per_icao_witness:
  "icao_unico (map icao (Avion_fisico almacen_vacio))
   \<and> corrida_valida respuesta_con_mexicanos
   \<and> avion_amx2 \<in> set (retenidos respuesta_con_mexicanos)
   \<and> (\<exists>k r. campo avion_amx2 0 = Inr k
     \<and> filter (\<lambda>x. sql_eq (icao x) k) (Avion_fisico (ingest_runs almacen_vacio
           ([(respuesta_sin_mexicanos, 1700000600)] @ [(respuesta_con_mexicanos, 1700000700)]))) = [r]
     \<and> filter (\<lambda>x. sql_eq (icao x) k) (Avion_fisico (ingest_runs almacen_vacio
           ([(respuesta_sin_mexicanos, 1700000600)] @ (respuesta_con_mexicanos, 1700000700)
              # [(respuesta_con_mexicanos, 1700000800)]))) = [r])"
proof -
  have u: "icao_unico (map icao (Avion_fisico almacen_vacio))"
    by (simp add: almacen_vacio_def)
  have v: "corrida_valida respuesta_con_mexicanos"
    by (simp add: ejemplos corrida_valida_def registro_admitido_def registro_valido_def
          campo_def del: One_nat_def)
  have r: "avion_amx2 \<in> set (retenidos respuesta_con_mexicanos)"
    by (simp add: ejemplos retenidos_def registros_def nationality_filter_def)
  show ?thesis
    using u v r one_identity_row_per_icao [OF u v r,
        of "[(respuesta_sin_mexicanos, 1700000600)]" 1700000700
           "[(respuesta_con_mexicanos, 1700000800)]"]
    by blast
qed

subsection \<open>The filter and the stored values\<close>




subsection \<open>Snapshots accumulate\<close>

text \<open>
  C6. \<open>N\<close> runs that return normally and retain \<open>M\<close> records each add exactly \<open>N \<sqdot> M\<close> rows
  to Snapshots, and the rows that were there stay as they were, in their places.
\<close>

theorem ingest_runs_snapshot_count:
  assumes "list_all (\<lambda>c. corrida_valida (fst c) \<and> length (retenidos (fst c)) = M) corridas"
  shows "length (Snapshots (ingest_runs db corridas)) = length (Snapshots db) + length corridas * M
     \<and> take (length (Snapshots db)) (Snapshots (ingest_runs db corridas)) = Snapshots db"
proof -
  have "length (Snapshots (ingest_runs db corridas)) = length (Snapshots db) + length corridas * M"
    using assms
  proof (induction corridas arbitrary: db)
    case Nil
    then show ?case by simp
  next
    case (Cons c corridas)
    obtain d t where c: "c = (d, t)" by (cases c)
    from Cons.prems c have v: "corrida_valida d" and m: "length (retenidos d) = M"
      and rest: "list_all (\<lambda>c. corrida_valida (fst c) \<and> length (retenidos (fst c)) = M) corridas"
      by simp_all
    from llenar_tabla_en_sqlite_valida [OF v] obtain db1 hecho where
      r: "llenar_tabla_en_sqlite d t db = Inr (db1, hecho)" by blast
    from llenar_tabla_en_sqlite_Snapshots_length [OF r] m
    have "length (Snapshots db1) = length (Snapshots db) + M" by auto
    then show ?case using Cons.IH [OF rest, of db1] c r by simp
  qed
  moreover from ingest_runs_Snapshots_prefix [of db corridas]
  have "take (length (Snapshots db)) (Snapshots (ingest_runs db corridas)) = Snapshots db"
    by auto
  ultimately show ?thesis by simp
qed

text \<open>C6 with three runs of two retained records on a store that holds one snapshot.\<close>

theorem ingest_runs_snapshot_count_witness:
  "list_all (\<lambda>c. corrida_valida (fst c) \<and> length (retenidos (fst c)) = 2)
     [(respuesta_con_mexicanos, 1700000700), (respuesta_con_mexicanos, 1700000800),
      (respuesta_con_mexicanos, 1700000900)]
   \<and> length (Snapshots (ingest_runs almacen_con_amx1
        [(respuesta_con_mexicanos, 1700000700), (respuesta_con_mexicanos, 1700000800),
         (respuesta_con_mexicanos, 1700000900)])) = 7
   \<and> take 1 (Snapshots (ingest_runs almacen_con_amx1
        [(respuesta_con_mexicanos, 1700000700), (respuesta_con_mexicanos, 1700000800),
         (respuesta_con_mexicanos, 1700000900)])) = Snapshots almacen_con_amx1"
proof -
  have v: "corrida_valida respuesta_con_mexicanos"
    by (simp add: ejemplos corrida_valida_def registro_admitido_def registro_valido_def
          campo_def del: One_nat_def)
  have r: "length (retenidos respuesta_con_mexicanos) = 2"
    by (simp add: ejemplos retenidos_def registros_def nationality_filter_def)
  have h: "list_all (\<lambda>c. corrida_valida (fst c) \<and> length (retenidos (fst c)) = 2)
     [(respuesta_con_mexicanos, 1700000700), (respuesta_con_mexicanos, 1700000800),
      (respuesta_con_mexicanos, 1700000900)]"
    using v r by simp
  have l: "length (Snapshots almacen_con_amx1) = 1" by (simp add: almacen_con_amx1_def)
  show ?thesis
    using h ingest_runs_snapshot_count [OF h, of almacen_con_amx1] unfolding l by simp
qed

subsection \<open>A run that retains nothing\<close>

text \<open>
  C7, as amended. When no record is retained and the run returns normally, the store is
  left as it was. The run prints the JSON format error and returns before the commit
  when the fetched list is empty, and commits and prints the ordinary success line
  otherwise. No line says that there was nothing to persist.
\<close>

theorem nothing_retained_nothing_written:
  assumes "corrida_valida d" and "retenidos d = []"
  shows "llenar_tabla_en_sqlite d t db =
     Inr (db, if registros d = [] then [Print Msg_error_formato_json]
              else [Commit, Print Msg_tablas_llenadas_con_exito])"
proof -
  from llenar_tabla_en_sqlite_valida [OF assms(1)] obtain db' where
    r: "llenar_tabla_en_sqlite d t db =
     Inr (db', if registros d = [] then [Print Msg_error_formato_json]
              else [Commit, Print Msg_tablas_llenadas_con_exito])" by blast
  from r have "db' = db"
  proof (cases rule: llenar_tabla_en_sqlite_Inr)
    case vacio
    then show ?thesis by simp
  next
    case lleno
    then show ?thesis using assms(2) recorrer_aviones_sin_retenidos
      unfolding retenidos_def by blast
  qed
  then show ?thesis using r by simp
qed

text \<open>C7 on a response with an empty list of states.\<close>

theorem nothing_retained_nothing_written_witness:
  "corrida_valida (JObj [(''time'', JInt 1700000000), (''states'', JArr [])])
   \<and> retenidos (JObj [(''time'', JInt 1700000000), (''states'', JArr [])]) = []
   \<and> llenar_tabla_en_sqlite (JObj [(''time'', JInt 1700000000), (''states'', JArr [])])
        1700000700 almacen_con_amx1 = Inr (almacen_con_amx1, [Print Msg_error_formato_json])"
proof -
  let ?d = "JObj [(''time'', JInt 1700000000), (''states'', JArr [])]"
  have v: "corrida_valida ?d" by (simp add: corrida_valida_def)
  have r: "retenidos ?d = []" by (simp add: retenidos_def registros_def nationality_filter_def)
  have g: "registros ?d = []" by (simp add: registros_def)
  show ?thesis
    using v r nothing_retained_nothing_written [OF v r, of 1700000700 almacen_con_amx1]
    unfolding g by simp
qed

text \<open>
  C7, the report: on a response whose only record is Spanish nothing is retained, and
  the run commits and prints that the tables were filled.
\<close>

theorem no_retained_record_reports_success:
  "retenidos respuesta_sin_mexicanos = []
   \<and> llenar_tabla_en_sqlite respuesta_sin_mexicanos 1700000700 almacen_con_amx1 =
       Inr (almacen_con_amx1, [Commit, Print Msg_tablas_llenadas_con_exito])"
  by (simp add: ejemplos evaluar retenidos_def registros_def nationality_filter_def
        del: One_nat_def)

subsection \<open>A known \<open>icao\<close>\<close>

text \<open>
  C10. A run that returns normally leaves every row of Avion_fisico as it was, key, call
  sign and country, and in its place; the rows it adds have an \<open>icao\<close> that no row had. So
  a record with a known \<open>icao\<close> changes nothing in the identity table, whatever call sign
  it carries.
\<close>

theorem known_icao_row_unchanged:
  assumes "corrida_valida d"
  shows "\<exists>db' hecho nuevos. llenar_tabla_en_sqlite d t db = Inr (db', hecho)
     \<and> Avion_fisico db' = Avion_fisico db @ nuevos
     \<and> list_all (icao_nuevo (Avion_fisico db)) nuevos"
proof -
  from llenar_tabla_en_sqlite_valida [OF assms] obtain db' hecho where
    r: "llenar_tabla_en_sqlite d t db = Inr (db', hecho)" by blast
  from llenar_tabla_en_sqlite_Avion [OF r] r show ?thesis by blast
qed

text \<open>
  C10 on the store that knows the aircraft as AMX1 and a response that shows it as AMX1
  and as AMX2: the identity table is the one row it was.
\<close>

theorem known_icao_row_unchanged_witness:
  "corrida_valida respuesta_con_mexicanos
   \<and> (\<exists>db' hecho nuevos.
        llenar_tabla_en_sqlite respuesta_con_mexicanos 1700000700 almacen_con_amx1 = Inr (db', hecho)
     \<and> Avion_fisico db' = Avion_fisico almacen_con_amx1 @ nuevos
     \<and> list_all (icao_nuevo (Avion_fisico almacen_con_amx1)) nuevos)
   \<and> map_sum id (\<lambda>x. Avion_fisico (fst x))
         (llenar_tabla_en_sqlite respuesta_con_mexicanos 1700000700 almacen_con_amx1)
       = Inr [\<lparr>af_id = 1, icao = SText ''0d0a1b'', call_sign = SText ''AMX1'',
               pais_origen = SText ''Mexico''\<rparr>]"
proof -
  have v: "corrida_valida respuesta_con_mexicanos"
    by (simp add: ejemplos corrida_valida_def registro_admitido_def registro_valido_def
          campo_def del: One_nat_def)
  have e: "map_sum id (\<lambda>x. Avion_fisico (fst x))
         (llenar_tabla_en_sqlite respuesta_con_mexicanos 1700000700 almacen_con_amx1)
       = Inr [\<lparr>af_id = 1, icao = SText ''0d0a1b'', call_sign = SText ''AMX1'',
               pais_origen = SText ''Mexico''\<rparr>]"
    by (simp add: ejemplos evaluar del: One_nat_def)
  show ?thesis
    using v e known_icao_row_unchanged [OF v, of 1700000700 almacen_con_amx1] by blast
qed

subsection \<open>\<open>main\<close>: a response without \<open>states\<close>\<close>

lemma main_desde_endpoint_sin_states:
  assumes "sin_states (states_endpoint env token)"
  shows "main_desde_endpoint env antes token =
     (antes @ [Get_states]
        @ (if states_endpoint env token = Timed_out then [Print Msg_endpoint_tardo_demasiado] else [])
        @ [Print Msg_no_se_pudo_obtener_informacion],
      Exited, almacen env)"
proof (cases "states_endpoint env token")
  case Timed_out
  then show ?thesis by (simp add: main_desde_endpoint_def llamar_al_endpoint_def)
next
  case Unreachable
  then show ?thesis using assms by simp
next
  case Body_not_json
  then show ?thesis using assms by simp
next
  case (Body j)
  then show ?thesis using assms
    by (simp add: main_desde_endpoint_def llamar_al_endpoint_def split: if_splits)
qed

text \<open>
  C8. With credentials and token in order, a fetch response that is None, empty, or
  lacks \<open>states\<close> makes the run print that no flight information was obtained and call
  \<open>exit()\<close>: no exception, no connection to the store, the store as it was.
\<close>

theorem main_ingest_sin_states:
  assumes "credentials_json env = File_json c"
    and "subscript_str c ''clientId'' = Inr i" and "truthy i"
    and "subscript_str c ''clientSecret'' = Inr s" and "truthy s"
    and "token_endpoint env i s = Body r"
    and "subscript_str r ''access_token'' = Inr token" and "truthy token"
    and "sin_states (states_endpoint env token)"
  shows "main_ingest env =
     ([Open_credentials, Post_token, Get_states]
        @ (if states_endpoint env token = Timed_out then [Print Msg_endpoint_tardo_demasiado] else [])
        @ [Print Msg_no_se_pudo_obtener_informacion],
      Exited, almacen env)"
  using assms(1-8) main_desde_endpoint_sin_states [OF assms(9), of "[Open_credentials, Post_token]"]
  by (simp add: main_ingest_def obtener_credenciales_de_json_def obtener_token_def)

text \<open>C8 on a response that holds only \<open>time\<close>.\<close>

theorem main_ingest_sin_states_witness:
  "credentials_json entorno_sin_states =
     File_json (JObj [(''clientId'', JStr ''id''), (''clientSecret'', JStr ''secret'')])
   \<and> subscript_str (JObj [(''clientId'', JStr ''id''), (''clientSecret'', JStr ''secret'')])
        ''clientId'' = Inr (JStr ''id'')
   \<and> truthy (JStr ''id'')
   \<and> subscript_str (JObj [(''clientId'', JStr ''id''), (''clientSecret'', JStr ''secret'')])
        ''clientSecret'' = Inr (JStr ''secret'')
   \<and> truthy (JStr ''secret'')
   \<and> token_endpoint entorno_sin_states (JStr ''id'') (JStr ''secret'')
       = Body (JObj [(''access_token'', JStr ''token'')])
   \<and> subscript_str (JObj [(''access_token'', JStr ''token'')]) ''access_token''
       = Inr (JStr ''token'')
   \<and> truthy (JStr ''token'')
   \<and> sin_states (states_endpoint entorno_sin_states (JStr ''token''))
   \<and> main_ingest entorno_sin_states =
       ([Open_credentials, Post_token, Get_states, Print Msg_no_se_pudo_obtener_informacion],
        Exited, almacen_con_amx1)"
proof -
  let ?c = "JObj [(''clientId'', JStr ''id''), (''clientSecret'', JStr ''secret'')]"
  let ?r = "JObj [(''access_token'', JStr ''token'')]"
  have h1: "credentials_json entorno_sin_states = File_json ?c"
    by (simp add: entorno_sin_states_def)
  have h2: "subscript_str ?c ''clientId'' = Inr (JStr ''id'')" by simp
  have h3: "truthy (JStr ''id'')" by simp
  have h4: "subscript_str ?c ''clientSecret'' = Inr (JStr ''secret'')" by simp
  have h5: "truthy (JStr ''secret'')" by simp
  have h6: "token_endpoint entorno_sin_states (JStr ''id'') (JStr ''secret'') = Body ?r"
    by (simp add: entorno_sin_states_def)
  have h7: "subscript_str ?r ''access_token'' = Inr (JStr ''token'')" by simp
  have h8: "truthy (JStr ''token'')" by simp
  have h9: "sin_states (states_endpoint entorno_sin_states (JStr ''token''))"
    by (simp add: entorno_sin_states_def)
  have e: "states_endpoint entorno_sin_states (JStr ''token'') \<noteq> Timed_out"
    "almacen entorno_sin_states = almacen_con_amx1"
    by (simp_all add: entorno_sin_states_def)
  show ?thesis
    using h1 h2 h3 h4 h5 h6 h7 h8 h9 main_ingest_sin_states [OF h1 h2 h3 h4 h5 h6 h7 h8 h9] e
    by simp
qed

subsection \<open>\<open>main\<close>: the check of the command line\<close>

text \<open>
  The distance job checks the command line before anything else. The ingestion job
  checks it at line 38, after the three steps before it.
\<close>

lemma main_compute_checks_argv_first:
  "length linea \<noteq> 2 \<Longrightarrow>
   main_compute linea tabla = ([Print Msg_formato_de_ruta_compute], Exited, tabla)"
  by (simp add: main_compute_def)

lemma main_desde_argv_wrong_count:
  "length (sys_argv env) \<noteq> 2 \<Longrightarrow>
   main_desde_argv env antes todos =
     (antes @ [Print Msg_formato_de_ruta_ingest], Exited, almacen env)"
  by (simp add: main_desde_argv_def)

text \<open>
  C9. Started with no path on the command line, the ingestion job reads the credential
  file and sends both requests before it prints the usage line and exits. The claim says
  it does none of the three.
\<close>

theorem main_ingest_checks_argv_after_requests:
  "main_ingest entorno_sin_ruta =
     ([Open_credentials, Post_token, Get_states, Print Msg_formato_de_ruta_ingest],
      Exited, almacen_vacio)"
  by (simp add: entorno_sin_ruta_def main_ingest_def obtener_credenciales_de_json_def
        obtener_token_def main_desde_endpoint_def llamar_al_endpoint_def main_desde_argv_def
        respuesta_con_mexicanos_def)

text \<open>C9, what the run had done when it exited.\<close>

theorem main_ingest_checks_argv_after_requests_witness:
  "fst (main_ingest entorno_sin_ruta) =
     [Open_credentials, Post_token, Get_states, Print Msg_formato_de_ruta_ingest]"
  using main_ingest_checks_argv_after_requests by simp

end
